theory Spec2Isabelle
  imports Main "HOL-Library.Sublist"
begin

section \<open>The namespace reconciler of consul-k8s (control-plane/tenancy/namespace)\<close>

text \<open>
  A shallow embedding of \<^verbatim>\<open>namespace.go\<close>: the two operations \<^verbatim>\<open>EnsureDeleted\<close> and
  \<^verbatim>\<open>EnsureExists\<close> and the predicate \<^verbatim>\<open>isMarkedForDeletion\<close>. The remote resource
  service is a value of three functions over a state of its own; every call the code
  makes is appended to a log, so that "issues exactly one Write" is a statement about
  that log. A nil pointer dereference is the outcome \<open>Panics\<close>. The
  \<^verbatim>\<open>context.Context\<close> argument is handed to every call unchanged and is left out.
\<close>

subsection \<open>Errors\<close>

text \<open>The codes of \<^verbatim>\<open>google.golang.org/grpc/codes\<close>.\<close>

datatype Code = OK | Canceled | Unknown | InvalidArgument | DeadlineExceeded | NotFound
  | AlreadyExists | PermissionDenied | ResourceExhausted | FailedPrecondition | Aborted
  | OutOfRange | Unimplemented | Internal | Unavailable | DataLoss | Unauthenticated

text \<open>
  Go error values. \<open>Err c m\<close> is an error this package did not build (one the client
  or the encoder returned): \<open>c\<close> is what \<^verbatim>\<open>status.Code\<close> reads from it (\<open>Unknown\<close> when it
  carries no gRPC status) and \<open>m\<close> its \<^verbatim>\<open>Error()\<close> text. The other two constructors are
  the two shapes of \<^verbatim>\<open>fmt.Errorf\<close> in the file:
  \<open>Errorf_q p a s\<close> is \<^verbatim>\<open>fmt.Errorf("p%qs", a)\<close> and \<open>Errorf_w p e\<close> is
  \<^verbatim>\<open>fmt.Errorf("p%w", e)\<close>, which keeps \<open>e\<close> for \<^verbatim>\<open>errors.Unwrap\<close>.
\<close>

datatype error = Err Code string | Errorf_q string string string | Errorf_w string error

fun Unwrap :: "error \<Rightarrow> error option" where
  "Unwrap (Errorf_w p e) = Some e"
| "Unwrap (Err c m) = None"
| "Unwrap (Errorf_q p a s) = None"

text \<open>
  \<^verbatim>\<open>status.Code(err)\<close>: \<open>OK\<close> for nil, the status code of the error otherwise. An error
  without a gRPC status reads as \<open>Unknown\<close>; a \<^verbatim>\<open>%w\<close> wrapper reads as the error it wraps.
\<close>

fun code_of :: "error \<Rightarrow> Code" where
  "code_of (Err c m) = c"
| "code_of (Errorf_q p a s) = Unknown"
| "code_of (Errorf_w p e) = code_of e"

definition status_Code :: "error option \<Rightarrow> Code" where
  "status_Code err = (case err of None \<Rightarrow> OK | Some e \<Rightarrow> code_of e)"

subsection \<open>The text of an error: \<^verbatim>\<open>%q\<close> and \<^verbatim>\<open>%w\<close>\<close>

text \<open>
  The verb \<^verbatim>\<open>%q\<close> prints a string as \<^verbatim>\<open>strconv.Quote\<close> does: between double quotes,
  with \<^verbatim>\<open>"\<close> and \<^verbatim>\<open>\\<close> behind a backslash, the printable ASCII bytes as they are, and
  the other ASCII bytes as \<^verbatim>\<open>\a \b \f \n \r \t \v\<close> or \<^verbatim>\<open>\xNN\<close>. A string is its bytes
  (\<open>char\<close> is a byte). A byte below \<^verbatim>\<open>0x80\<close> is a rune of its own and no multi-byte
  rune holds one, so a run of bytes from \<^verbatim>\<open>0x80\<close> up is quoted on its own: how (UTF-8
  decoding and the Unicode tables of \<^verbatim>\<open>strconv.IsPrint\<close>) is the parameter \<open>quoteWide\<close>.
\<close>

definition lowerhex :: "nat \<Rightarrow> char" where
  "lowerhex n = ''0123456789abcdef'' ! (n mod 16)"

definition escapeASCII :: "char \<Rightarrow> string" where
  "escapeASCII c =
     (let r = (of_char c :: nat) in
      if r = 0x22 \<or> r = 0x5C then [CHR 0x5C, c]
      else if 0x20 \<le> r \<and> r \<le> 0x7E then [c]
      else if r = 0x07 then [CHR 0x5C, CHR ''a'']
      else if r = 0x08 then [CHR 0x5C, CHR ''b'']
      else if r = 0x0C then [CHR 0x5C, CHR ''f'']
      else if r = 0x0A then [CHR 0x5C, CHR ''n'']
      else if r = 0x0D then [CHR 0x5C, CHR ''r'']
      else if r = 0x09 then [CHR 0x5C, CHR ''t'']
      else if r = 0x0B then [CHR 0x5C, CHR ''v'']
      else [CHR 0x5C, CHR ''x'', lowerhex (r div 16), lowerhex (r mod 16)])"

definition isASCII :: "char \<Rightarrow> bool" where
  "isASCII c = ((of_char c :: nat) < 0x80)"

function quoteBody :: "(string \<Rightarrow> string) \<Rightarrow> string \<Rightarrow> string" where
  "quoteBody quoteWide [] = []"
| "quoteBody quoteWide (c # cs) =
     (if isASCII c then escapeASCII c @ quoteBody quoteWide cs
      else quoteWide (c # takeWhile (\<lambda>b. \<not> isASCII b) cs)
             @ quoteBody quoteWide (dropWhile (\<lambda>b. \<not> isASCII b) cs))"
  by pat_completeness auto
termination
  by (relation "measure (\<lambda>(q, s). length s)")
     (auto simp: less_Suc_eq_le length_dropWhile_le)

definition Quote :: "(string \<Rightarrow> string) \<Rightarrow> string \<Rightarrow> string" where
  "Quote quoteWide s = CHR 0x22 # quoteBody quoteWide s @ [CHR 0x22]"

text \<open>The \<^verbatim>\<open>Error()\<close> method.\<close>

fun Error :: "(string \<Rightarrow> string) \<Rightarrow> error \<Rightarrow> string" where
  "Error quoteWide (Err c m) = m"
| "Error quoteWide (Errorf_q p a s) = p @ Quote quoteWide a @ s"
| "Error quoteWide (Errorf_w p e) = p @ Error quoteWide e"

subsection \<open>Resources, requests and responses (pbresource)\<close>

record Type =
  Group :: string
  GroupVersion :: string
  Kind :: string

record Tenancy =
  Partition :: string

record ID =
  Name :: string
  Type :: "Type option"
  Tenancy :: "Tenancy option"

record Any =
  TypeUrl :: string
  Value :: string

text \<open>
  A resource: a pointer field is an option, and so is the metadata map, which Go
  tells apart as nil or a map. The records keep the fields the code names; the others
  (the uid of an identity, the namespace of a tenancy, the owner, generation and status
  of a resource) are Go's zero values in everything the code builds and are left out.
\<close>

record Resource =
  Id :: "ID option"
  Version :: string
  Metadata :: "(string \<rightharpoonup> string) option"
  Data :: "Any option"

record ReadRequest =
  ReadRequest_Id :: "ID option"

record ReadResponse =
  ReadResponse_Resource :: "Resource option"

record WriteRequest =
  WriteRequest_Resource :: "Resource option"

record DeleteRequest =
  DeleteRequest_Id :: "ID option"
  DeleteRequest_Version :: string

text \<open>The payload of a namespace (pbtenancy.Namespace).\<close>

record Namespace =
  Description :: string

subsection \<open>Constants of the collaborators\<close>

definition DeletionTimestampKey :: string where
  "DeletionTimestampKey = ''deletionTimestamp''"

text \<open>
  Modelled from the spec: \<^verbatim>\<open>common.WildcardNamespace\<close>, declared in
  \<^verbatim>\<open>control-plane/api/common\<close>, which is not among the sources; the spec gives the
  wildcard as \<^verbatim>\<open>"*"\<close>.
\<close>

definition WildcardNamespace :: string where
  "WildcardNamespace = ''*''"

text \<open>
  Modelled from the spec: \<^verbatim>\<open>common.DefaultNamespaceName\<close>, declared in
  \<^verbatim>\<open>control-plane/api/common\<close>, which is not among the sources; the spec calls it the
  \<^verbatim>\<open>"default"\<close> sentinel.
\<close>

definition DefaultNamespaceName :: string where
  "DefaultNamespaceName = ''default''"

text \<open>
  Modelled from the spec: \<^verbatim>\<open>pbtenancy.NamespaceType\<close>, the fixed type of namespace
  resources, declared by the resource service's own packages; no theorem depends on
  its three strings.
\<close>

definition NamespaceType :: Type where
  "NamespaceType = \<lparr>Group = ''tenancy'', GroupVersion = ''v2beta1'', Kind = ''Namespace''\<rparr>"

subsection \<open>The client and the log of its calls\<close>

text \<open>
  \<^verbatim>\<open>pbresource.ResourceServiceClient\<close>: \<open>Read\<close> returns Go's pair of a response and an
  error; of \<open>Write\<close> and \<open>Delete\<close> the code keeps the error only. Each takes the state
  of the remote service and returns the new one.
\<close>

record 's ResourceServiceClient =
  Read :: "ReadRequest \<Rightarrow> 's \<Rightarrow> (ReadResponse option \<times> error option) \<times> 's"
  Write :: "WriteRequest \<Rightarrow> 's \<Rightarrow> error option \<times> 's"
  Delete :: "DeleteRequest \<Rightarrow> 's \<Rightarrow> error option \<times> 's"

datatype call =
  ReadCall ReadRequest "ReadResponse option \<times> error option"
| WriteCall WriteRequest "error option"
| DeleteCall DeleteRequest "error option"

fun isWrite :: "call \<Rightarrow> bool" where
  "isWrite (WriteCall req err) = True"
| "isWrite (ReadCall req r) = False"
| "isWrite (DeleteCall req err) = False"

fun isDelete :: "call \<Rightarrow> bool" where
  "isDelete (DeleteCall req err) = True"
| "isDelete (ReadCall req r) = False"
| "isDelete (WriteCall req err) = False"

definition client_Read ::
  "'s ResourceServiceClient \<Rightarrow> ReadRequest \<Rightarrow> 's \<times> call list
     \<Rightarrow> (ReadResponse option \<times> error option) \<times> ('s \<times> call list)" where
  "client_Read client req w =
     (case w of (s, log) \<Rightarrow>
        (case Read client req s of (r, s') \<Rightarrow> (r, (s', log @ [ReadCall req r]))))"

definition client_Write ::
  "'s ResourceServiceClient \<Rightarrow> WriteRequest \<Rightarrow> 's \<times> call list
     \<Rightarrow> error option \<times> ('s \<times> call list)" where
  "client_Write client req w =
     (case w of (s, log) \<Rightarrow>
        (case Write client req s of (err, s') \<Rightarrow> (err, (s', log @ [WriteCall req err]))))"

definition client_Delete ::
  "'s ResourceServiceClient \<Rightarrow> DeleteRequest \<Rightarrow> 's \<times> call list
     \<Rightarrow> error option \<times> ('s \<times> call list)" where
  "client_Delete client req w =
     (case w of (s, log) \<Rightarrow>
        (case Delete client req s of (err, s') \<Rightarrow> (err, (s', log @ [DeleteCall req err]))))"

subsection \<open>The operations\<close>

datatype 'a outcome = Returns 'a | Panics

text \<open>
  \<^verbatim>\<open>isMarkedForDeletion\<close> reads \<^verbatim>\<open>res.Metadata\<close> of a pointer: on nil it panics.
\<close>

definition isMarkedForDeletion :: "Resource option \<Rightarrow> bool outcome" where
  "isMarkedForDeletion res =
     (case res of
        None \<Rightarrow> Panics
      | Some r \<Rightarrow>
          (case Metadata r of
             None \<Rightarrow> Returns False
           | Some m \<Rightarrow> Returns (m DeletionTimestampKey \<noteq> None)))"

text \<open>
  \<^verbatim>\<open>EnsureDeleted\<close>. The branches of the \<^verbatim>\<open>switch\<close> in the order of the source; in the
  third, \<^verbatim>\<open>rsp.Resource\<close> dereferences the response, which panics on nil.
\<close>

definition EnsureDeleted ::
  "'s ResourceServiceClient \<Rightarrow> string \<Rightarrow> string \<Rightarrow> 's \<times> call list
     \<Rightarrow> error option outcome \<times> ('s \<times> call list)" where
  "EnsureDeleted client ap ns w =
     (if ns = WildcardNamespace \<or> ns = DefaultNamespaceName then (Returns None, w)
      else
        (case client_Read client
                \<lparr>ReadRequest_Id = Some \<lparr>Name = ns, Type = Some NamespaceType,
                                         Tenancy = Some \<lparr>Partition = ap\<rparr>\<rparr>\<rparr> w of
           ((rsp, err), w1) \<Rightarrow>
             if status_Code err = NotFound then (Returns None, w1)
             else
               (case err of
                  Some e \<Rightarrow> (Returns (Some (Errorf_w ''namespace read failed: '' e)), w1)
                | None \<Rightarrow>
                    (case rsp of
                       None \<Rightarrow> (Panics, w1)
                     | Some r \<Rightarrow>
                         (case isMarkedForDeletion (ReadResponse_Resource r) of
                            Panics \<Rightarrow> (Panics, w1)
                          | Returns True \<Rightarrow> (Returns None, w1)
                          | Returns False \<Rightarrow>
                              (case ReadResponse_Resource r of
                                 None \<Rightarrow> (Panics, w1)
                               | Some res \<Rightarrow>
                                   (case client_Delete client
                                           \<lparr>DeleteRequest_Id = Id res,
                                            DeleteRequest_Version = []\<rparr> w1 of
                                      (err', w2) \<Rightarrow>
                                        (case err' of
                                           Some e \<Rightarrow>
                                             (Returns (Some (Errorf_w ''namespace delete failed: '' e)), w2)
                                         | None \<Rightarrow> (Returns None, w2)))))))))"

text \<open>
  \<^verbatim>\<open>EnsureExists\<close>. \<open>anypb_New\<close> is \<^verbatim>\<open>anypb.New\<close> on a namespace payload, with Go's pair
  of a result and an error: the protobuf encoding is the library's. The resource it
  writes names no version, which is the empty string.
\<close>

definition EnsureExists ::
  "'s ResourceServiceClient \<Rightarrow> (Namespace \<Rightarrow> Any option \<times> error option) \<Rightarrow> string \<Rightarrow> string
     \<Rightarrow> 's \<times> call list \<Rightarrow> (bool \<times> error option) outcome \<times> ('s \<times> call list)" where
  "EnsureExists client anypb_New ap ns w =
     (if ns = WildcardNamespace \<or> ns = DefaultNamespaceName then (Returns (False, None), w)
      else
        (case client_Read client
                \<lparr>ReadRequest_Id = Some \<lparr>Name = ns, Type = Some NamespaceType,
                                         Tenancy = Some \<lparr>Partition = ap\<rparr>\<rparr>\<rparr> w of
           ((rsp, err), w1) \<Rightarrow>
             (case err of
                None \<Rightarrow>
                  (case rsp of
                     None \<Rightarrow> (Panics, w1)
                   | Some r \<Rightarrow>
                       (case isMarkedForDeletion (ReadResponse_Resource r) of
                          Panics \<Rightarrow> (Panics, w1)
                        | Returns True \<Rightarrow>
                            (Returns (False,
                               Some (Errorf_q ''consul namespace '' ns '' deletion in progress'')), w1)
                        | Returns False \<Rightarrow> (Returns (False, None), w1)))
              | Some e \<Rightarrow>
                  if status_Code err \<noteq> NotFound
                  then (Returns (False, Some (Errorf_w ''consul namespace read failed: '' e)), w1)
                  else
                    (case anypb_New \<lparr>Description = ''Auto-generated by consul-k8s''\<rparr> of
                       (nsData, Some e') \<Rightarrow> (Returns (False, Some e'), w1)
                     | (nsData, None) \<Rightarrow>
                         (case client_Write client
                                 \<lparr>WriteRequest_Resource = Some
                                    \<lparr>Id = Some \<lparr>Name = ns, Type = Some NamespaceType,
                                                 Tenancy = Some \<lparr>Partition = ap\<rparr>\<rparr>,
                                     Version = [],
                                     Metadata = Some [''external-source'' \<mapsto> ''kubernetes''],
                                     Data = nsData\<rparr>\<rparr> w1 of
                            (err', w2) \<Rightarrow>
                              (case err' of
                                 Some e' \<Rightarrow>
                                   (Returns (False,
                                      Some (Errorf_w ''consul namespace creation failed: '' e')), w2)
                               | None \<Rightarrow> (Returns (True, None), w2)))))))"

subsection \<open>Clients and encoders to run the operations on\<close>

text \<open>A client that answers every call with a fixed response and has no state.\<close>

definition stubClient ::
  "ReadResponse option \<times> error option \<Rightarrow> error option \<Rightarrow> error option
     \<Rightarrow> unit ResourceServiceClient" where
  "stubClient r werr derr =
     \<lparr>Read = (\<lambda>req s. (r, s)), Write = (\<lambda>req s. (werr, s)), Delete = (\<lambda>req s. (derr, s))\<rparr>"

text \<open>
  A client over a store from identities to resources: \<open>Read\<close> looks the identity up,
  \<open>Write\<close> stores the resource under its identity, \<open>Delete\<close> removes it.
\<close>

definition memClient :: "(ID \<rightharpoonup> Resource) ResourceServiceClient" where
  "memClient =
     \<lparr>Read = (\<lambda>req s.
        (case ReadRequest_Id req of
           None \<Rightarrow> ((None, Some (Err InvalidArgument ''id is required'')), s)
         | Some i \<Rightarrow>
             (case s i of
                None \<Rightarrow> ((None, Some (Err NotFound ''resource not found'')), s)
              | Some res \<Rightarrow> ((Some \<lparr>ReadResponse_Resource = Some res\<rparr>, None), s)))),
      Write = (\<lambda>req s.
        (case WriteRequest_Resource req of
           None \<Rightarrow> (Some (Err InvalidArgument ''resource is required''), s)
         | Some res \<Rightarrow>
             (case Id res of
                None \<Rightarrow> (Some (Err InvalidArgument ''resource.id is required''), s)
              | Some i \<Rightarrow> (None, s(i \<mapsto> res))))),
      Delete = (\<lambda>req s.
        (case DeleteRequest_Id req of
           None \<Rightarrow> (Some (Err InvalidArgument ''id is required''), s)
         | Some i \<Rightarrow> (None, s(i := None))))\<rparr>"

text \<open>
  \<^verbatim>\<open>anypb.New\<close> on a namespace payload, as the protobuf library does it. The type URL
  names the message; the value is its proto3 wire encoding: nothing for the empty
  description, otherwise the tag \<^verbatim>\<open>0x0A\<close> of field 1, the length as a varint and the
  bytes of the description.
\<close>

fun appendVarint :: "nat \<Rightarrow> string" where
  "appendVarint n =
     (if n < 0x80 then [char_of n] else char_of (n mod 0x80 + 0x80) # appendVarint (n div 0x80))"

definition marshalNamespace :: "Namespace \<Rightarrow> string" where
  "marshalNamespace m =
     (if Description m = [] then []
      else CHR 0x0A # appendVarint (length (Description m)) @ Description m)"

text \<open>The encoding alone: an encoder that always succeeds.\<close>

definition newAny :: "Namespace \<Rightarrow> Any option \<times> error option" where
  "newAny m =
     (Some \<lparr>TypeUrl = ''type.googleapis.com/hashicorp.consul.tenancy.v2beta1.Namespace'',
            Value = marshalNamespace m\<rparr>, None)"

text \<open>
  The library checks a description for UTF-8 before it encodes. Bytes below \<^verbatim>\<open>0x80\<close>
  are always valid, so a description of such bytes is encoded; what the library returns
  for any other description is the parameter \<open>wide\<close>.
\<close>

definition anypb_New_impl ::
  "(Namespace \<Rightarrow> Any option \<times> error option) \<Rightarrow> Namespace
     \<Rightarrow> Any option \<times> error option" where
  "anypb_New_impl wide m = (if list_all isASCII (Description m) then newAny m else wide m)"

text \<open>An encoder that fails.\<close>

definition failAny :: "Namespace \<Rightarrow> Any option \<times> error option" where
  "failAny m = (None, Some (Err Unknown ''proto: cannot marshal''))"

text \<open>The bytes of a rune beyond ASCII left as they are (what \<^verbatim>\<open>%q\<close> does to a printable one).\<close>

definition keepWide :: "string \<Rightarrow> string" where
  "keepWide s = s"

text \<open>The identity the two operations read, as the source builds it.\<close>

abbreviation namespaceID :: "string \<Rightarrow> string \<Rightarrow> ID" where
  "namespaceID ap ns \<equiv>
     \<lparr>Name = ns, Type = Some NamespaceType, Tenancy = Some \<lparr>Partition = ap\<rparr>\<rparr>"

text \<open>
  The bytes \<^verbatim>\<open>%q\<close> prints as they are: printable ASCII but the double quote and the
  backslash.
\<close>

definition plainByte :: "char \<Rightarrow> bool" where
  "plainByte c =
     (let r = (of_char c :: nat) in 0x20 \<le> r \<and> r \<le> 0x7E \<and> r \<noteq> 0x22 \<and> r \<noteq> 0x5C)"

text \<open>
  Records the service may hold: a live namespace as \<^verbatim>\<open>EnsureExists\<close> writes it, with a
  version of the service's, and the same with the deletion marker set.
\<close>

definition liveResource :: "string \<Rightarrow> string \<Rightarrow> Resource" where
  "liveResource ap ns =
     \<lparr>Id = Some (namespaceID ap ns), Version = ''01HQ3ZJ5'',
      Metadata = Some [''external-source'' \<mapsto> ''kubernetes''], Data = None\<rparr>"

definition markedResource :: "string \<Rightarrow> string \<Rightarrow> Resource" where
  "markedResource ap ns =
     \<lparr>Id = Some (namespaceID ap ns), Version = ''01HQ3ZJ5'',
      Metadata = Some [''external-source'' \<mapsto> ''kubernetes'',
                       ''deletionTimestamp'' \<mapsto> ''2024-02-01T10:00:00Z''],
      Data = None\<rparr>"

text \<open>A namespace name with a double quote in it: \<^verbatim>\<open>a"b\<close>.\<close>

definition quotedName :: string where
  "quotedName = [CHR ''a'', CHR 0x22, CHR ''b'']"

section \<open>Properties\<close>

subsection \<open>Auxiliary facts\<close>

lemmas ops = EnsureDeleted_def EnsureExists_def client_Read_def client_Write_def client_Delete_def

lemmas reserved = WildcardNamespace_def DefaultNamespaceName_def

lemma escapeASCII_plain: "plainByte c \<Longrightarrow> isASCII c \<and> escapeASCII c = [c]"
  by (simp add: plainByte_def isASCII_def escapeASCII_def Let_def)

lemma quoteBody_plain: "\<forall>c\<in>set s. plainByte c \<Longrightarrow> quoteBody quoteWide s = s"
  by (induction s) (simp_all add: escapeASCII_plain)

lemma Quote_plain:
  "\<forall>c\<in>set s. plainByte c \<Longrightarrow> Quote quoteWide s = CHR 0x22 # s @ [CHR 0x22]"
  by (simp add: Quote_def quoteBody_plain)

lemma created_not_marked:
  "Metadata res = Some [''external-source'' \<mapsto> ''kubernetes'']
   \<Longrightarrow> isMarkedForDeletion (Some res) = Returns False"
  by (simp add: isMarkedForDeletion_def DeletionTimestampKey_def)

lemma liveResource_not_marked: "isMarkedForDeletion (Some (liveResource ap ns)) = Returns False"
  by (simp add: isMarkedForDeletion_def DeletionTimestampKey_def liveResource_def)

lemma markedResource_marked: "isMarkedForDeletion (Some (markedResource ap ns)) = Returns True"
  by (simp add: isMarkedForDeletion_def DeletionTimestampKey_def markedResource_def)

subsection \<open>The deletion marker\<close>

text \<open>
  C3. On every record, \<open>isMarkedForDeletion\<close> returns true exactly when the record has a
  metadata map and the key \<^verbatim>\<open>"deletionTimestamp"\<close> is in it. What is stored under the key
  plays no part (the empty string marks as well); a record with no metadata map, or with
  a map that lacks the key, is not marked.
\<close>

theorem isMarkedForDeletion_iff_key:
  "isMarkedForDeletion (Some res)
     = Returns (\<exists>m. Metadata res = Some m \<and> ''deletionTimestamp'' \<in> dom m)
   \<and> isMarkedForDeletion (Some (res\<lparr>Metadata := Some (m(''deletionTimestamp'' \<mapsto> v))\<rparr>))
     = Returns True
   \<and> isMarkedForDeletion (Some (res\<lparr>Metadata := Some (m(''deletionTimestamp'' \<mapsto> []))\<rparr>))
     = Returns True
   \<and> isMarkedForDeletion (Some (res\<lparr>Metadata := None\<rparr>)) = Returns False
   \<and> isMarkedForDeletion (Some (res\<lparr>Metadata := Some (m(''deletionTimestamp'' := None))\<rparr>))
     = Returns False"
  by (auto simp: isMarkedForDeletion_def DeletionTimestampKey_def split: option.splits)

subsection \<open>Reserved names\<close>

text \<open>
  C7. When the namespace name is the wildcard or the default name, \<open>EnsureDeleted\<close>
  returns success and \<open>EnsureExists\<close> returns (false, success), for every partition and
  client; the state of the service and the log of calls come back as they went in, so
  no Read, Write or Delete was issued.
\<close>

theorem reserved_names_noop:
  assumes "ns = WildcardNamespace \<or> ns = DefaultNamespaceName"
  shows "EnsureDeleted client ap ns w = (Returns None, w)
         \<and> EnsureExists client anypb_New ap ns w = (Returns (False, None), w)"
  using assms by (auto simp: ops)

theorem reserved_names_noop_witness:
  "EnsureDeleted memClient ''dc1'' ''*'' (Map.empty, []) = (Returns None, (Map.empty, []))
   \<and> EnsureExists memClient newAny ''dc1'' ''*'' (Map.empty, [])
       = (Returns (False, None), (Map.empty, []))
   \<and> EnsureDeleted memClient ''dc1'' ''default'' (Map.empty, []) = (Returns None, (Map.empty, []))
   \<and> EnsureExists memClient newAny ''dc1'' ''default'' (Map.empty, [])
       = (Returns (False, None), (Map.empty, []))"
  using reserved_names_noop [where ns = "''*''" and client = memClient and ap = "''dc1''"
      and w = "(Map.empty, [])" and anypb_New = newAny]
    reserved_names_noop [where ns = "''default''" and client = memClient and ap = "''dc1''"
      and w = "(Map.empty, [])" and anypb_New = newAny]
  by (simp add: reserved)

subsection \<open>EnsureDeleted\<close>

text \<open>
  C2. For a name that is not reserved, when the read succeeds with a record that is not
  marked for deletion, \<open>EnsureDeleted\<close> issues, after the read, exactly one Delete, for
  the identity of the record read and with the empty version (no version check). It
  returns success when the Delete succeeds, and the Delete's error wrapped as
  "namespace delete failed: ..." when it fails.
\<close>

theorem EnsureDeleted_live_deletes_unconditionally:
  assumes "ns \<noteq> WildcardNamespace" and "ns \<noteq> DefaultNamespaceName"
    and "Read client \<lparr>ReadRequest_Id = Some (namespaceID ap ns)\<rparr> s = ((Some rsp, None), s')"
    and "ReadResponse_Resource rsp = Some res"
    and "isMarkedForDeletion (Some res) = Returns False"
    and "Delete client \<lparr>DeleteRequest_Id = Id res, DeleteRequest_Version = []\<rparr> s' = (derr, s'')"
  shows "EnsureDeleted client ap ns (s, log) =
           (Returns (case derr of None \<Rightarrow> None
                     | Some e \<Rightarrow> Some (Errorf_w ''namespace delete failed: '' e)),
            (s'', log @ [ReadCall \<lparr>ReadRequest_Id = Some (namespaceID ap ns)\<rparr> (Some rsp, None),
                        DeleteCall \<lparr>DeleteRequest_Id = Id res, DeleteRequest_Version = []\<rparr> derr]))"
  using assms by (simp add: ops status_Code_def split: option.splits)

theorem EnsureDeleted_live_deletes_unconditionally_witness:
  "EnsureDeleted
     (stubClient (Some \<lparr>ReadResponse_Resource = Some (liveResource ''dc1'' ''team-a'')\<rparr>, None)
        None None)
     ''dc1'' ''team-a'' ((), [])
   = (Returns None,
      ((), [ReadCall \<lparr>ReadRequest_Id = Some (namespaceID ''dc1'' ''team-a'')\<rparr>
              (Some \<lparr>ReadResponse_Resource = Some (liveResource ''dc1'' ''team-a'')\<rparr>, None),
            DeleteCall \<lparr>DeleteRequest_Id = Some (namespaceID ''dc1'' ''team-a''),
                        DeleteRequest_Version = []\<rparr> None]))"
  using EnsureDeleted_live_deletes_unconditionally
    [where ns = "''team-a''" and ap = "''dc1''" and s = "()" and s' = "()" and s'' = "()"
       and log = "[]" and derr = None and res = "liveResource ''dc1'' ''team-a''"
       and rsp = "\<lparr>ReadResponse_Resource = Some (liveResource ''dc1'' ''team-a'')\<rparr>"
       and client = "stubClient
          (Some \<lparr>ReadResponse_Resource = Some (liveResource ''dc1'' ''team-a'')\<rparr>, None)
          None None"]
  by (simp add: reserved stubClient_def liveResource_not_marked)
     (simp add: liveResource_def)

text \<open>
  C5. For a name that is not reserved, when the read fails with NotFound, or succeeds
  with a record that carries the deletion marker, \<open>EnsureDeleted\<close> returns success and
  the read is the only call it issued: no Delete. The state \<open>s\<close> is any state of the
  service, so this holds of a second call that finds either state.
\<close>

theorem EnsureDeleted_absent_or_marked_noop:
  assumes "ns \<noteq> WildcardNamespace" and "ns \<noteq> DefaultNamespaceName"
    and "Read client \<lparr>ReadRequest_Id = Some (namespaceID ap ns)\<rparr> s = ((rsp, err), s')"
    and "status_Code err = NotFound
         \<or> (err = None \<and> (\<exists>r res. rsp = Some r \<and> ReadResponse_Resource r = Some res
                \<and> isMarkedForDeletion (Some res) = Returns True))"
  shows "EnsureDeleted client ap ns (s, log) =
           (Returns None,
            (s', log @ [ReadCall \<lparr>ReadRequest_Id = Some (namespaceID ap ns)\<rparr> (rsp, err)]))"
  using assms by (auto simp: ops status_Code_def)

theorem EnsureDeleted_absent_or_marked_noop_witness:
  "EnsureDeleted memClient ''dc1'' ''team-a'' (Map.empty, [])
     = (Returns None,
        (Map.empty, [ReadCall \<lparr>ReadRequest_Id = Some (namespaceID ''dc1'' ''team-a'')\<rparr>
                       (None, Some (Err NotFound ''resource not found''))]))
   \<and> EnsureDeleted memClient ''dc1'' ''team-a''
       ([namespaceID ''dc1'' ''team-a'' \<mapsto> markedResource ''dc1'' ''team-a''], [])
     = (Returns None,
        ([namespaceID ''dc1'' ''team-a'' \<mapsto> markedResource ''dc1'' ''team-a''],
         [ReadCall \<lparr>ReadRequest_Id = Some (namespaceID ''dc1'' ''team-a'')\<rparr>
            (Some \<lparr>ReadResponse_Resource = Some (markedResource ''dc1'' ''team-a'')\<rparr>, None)]))"
  using EnsureDeleted_absent_or_marked_noop
    [where ns = "''team-a''" and ap = "''dc1''" and client = memClient and log = "[]"
       and s = Map.empty and s' = Map.empty and rsp = None
       and err = "Some (Err NotFound ''resource not found'')"]
    EnsureDeleted_absent_or_marked_noop
    [where ns = "''team-a''" and ap = "''dc1''" and client = memClient and log = "[]"
       and s = "[namespaceID ''dc1'' ''team-a'' \<mapsto> markedResource ''dc1'' ''team-a'']"
       and s' = "[namespaceID ''dc1'' ''team-a'' \<mapsto> markedResource ''dc1'' ''team-a'']"
       and rsp = "Some \<lparr>ReadResponse_Resource = Some (markedResource ''dc1'' ''team-a'')\<rparr>"
       and err = None]
  by (simp add: reserved memClient_def status_Code_def markedResource_marked)

subsection \<open>EnsureExists\<close>

text \<open>
  C6. For a name that is not reserved, when the read succeeds with a record that is not
  marked for deletion, \<open>EnsureExists\<close> returns (false, success) and the read is the only
  call it issued: no Write. The record \<open>EnsureExists\<close> itself writes has the metadata
  \<^verbatim>\<open>{"external-source": "kubernetes"}\<close>, which is not marked, so a second call that reads
  back the record of a first call returns (false, success).
\<close>

theorem EnsureExists_live_noop:
  assumes "ns \<noteq> WildcardNamespace" and "ns \<noteq> DefaultNamespaceName"
    and "Read client \<lparr>ReadRequest_Id = Some (namespaceID ap ns)\<rparr> s = ((Some rsp, None), s')"
    and "ReadResponse_Resource rsp = Some res"
    and "isMarkedForDeletion (Some res) = Returns False
         \<or> Metadata res = Some [''external-source'' \<mapsto> ''kubernetes'']"
  shows "EnsureExists client anypb_New ap ns (s, log) =
           (Returns (False, None),
            (s', log @ [ReadCall \<lparr>ReadRequest_Id = Some (namespaceID ap ns)\<rparr> (Some rsp, None)]))"
proof -
  from assms(5) have "isMarkedForDeletion (Some res) = Returns False"
    using created_not_marked by blast
  with assms(1-4) show ?thesis by (simp add: ops)
qed

text \<open>
  The witness runs \<open>EnsureExists\<close> twice on the store client, from the empty store: the
  first call creates the record, the second reads it back.
\<close>

theorem EnsureExists_live_noop_witness:
  "fst (EnsureExists memClient newAny ''dc1'' ''team-a'' (Map.empty, [])) = Returns (True, None)
   \<and> fst (EnsureExists memClient newAny ''dc1'' ''team-a''
            (snd (EnsureExists memClient newAny ''dc1'' ''team-a'' (Map.empty, []))))
       = Returns (False, None)"
proof -
  let ?written = "\<lparr>Id = Some (namespaceID ''dc1'' ''team-a''), Version = [],
                    Metadata = Some [''external-source'' \<mapsto> ''kubernetes''],
                    Data = fst (newAny \<lparr>Description = ''Auto-generated by consul-k8s''\<rparr>)\<rparr>"
  let ?store = "[namespaceID ''dc1'' ''team-a'' \<mapsto> ?written]"
  let ?calls = "[ReadCall \<lparr>ReadRequest_Id = Some (namespaceID ''dc1'' ''team-a'')\<rparr>
                   (None, Some (Err NotFound ''resource not found'')),
                 WriteCall \<lparr>WriteRequest_Resource = Some ?written\<rparr> None]"
  have first: "EnsureExists memClient newAny ''dc1'' ''team-a'' (Map.empty, [])
                 = (Returns (True, None), (?store, ?calls))"
    by (simp add: ops reserved memClient_def newAny_def status_Code_def)
  have "Read memClient \<lparr>ReadRequest_Id = Some (namespaceID ''dc1'' ''team-a'')\<rparr> ?store
          = ((Some \<lparr>ReadResponse_Resource = Some ?written\<rparr>, None), ?store)"
    by (simp add: memClient_def)
  then have "EnsureExists memClient newAny ''dc1'' ''team-a'' (?store, ?calls)
          = (Returns (False, None),
             (?store, ?calls @ [ReadCall \<lparr>ReadRequest_Id = Some (namespaceID ''dc1'' ''team-a'')\<rparr>
                                  (Some \<lparr>ReadResponse_Resource = Some ?written\<rparr>, None)]))"
    by (intro EnsureExists_live_noop [where res = ?written]) (simp_all add: reserved)
  with first show ?thesis by simp
qed

lemma EnsureExists_absent_encoded:
  assumes "ns \<noteq> WildcardNamespace" and "ns \<noteq> DefaultNamespaceName"
    and "Read client \<lparr>ReadRequest_Id = Some (namespaceID ap ns)\<rparr> s = ((rsp, err), s')"
    and "status_Code err = NotFound"
    and "anypb_New \<lparr>Description = ''Auto-generated by consul-k8s''\<rparr> = (nsData, None)"
    and "Write client
           \<lparr>WriteRequest_Resource = Some
              \<lparr>Id = Some (namespaceID ap ns), Version = [],
               Metadata = Some [''external-source'' \<mapsto> ''kubernetes''], Data = nsData\<rparr>\<rparr> s'
         = (werr, s'')"
  shows "snd (EnsureExists client anypb_New ap ns (s, log)) =
           (s'', log @ [ReadCall \<lparr>ReadRequest_Id = Some (namespaceID ap ns)\<rparr> (rsp, err),
                        WriteCall
                          \<lparr>WriteRequest_Resource = Some
                             \<lparr>Id = Some (namespaceID ap ns), Version = [],
                              Metadata = Some [''external-source'' \<mapsto> ''kubernetes''],
                              Data = nsData\<rparr>\<rparr> werr])
         \<and> (werr = None \<longrightarrow>
              fst (EnsureExists client anypb_New ap ns (s, log)) = Returns (True, None))"
  using assms by (cases err) (simp_all add: ops status_Code_def split: option.splits)

lemma varint_description:
  "appendVarint (length ''Auto-generated by consul-k8s'') = [CHR 0x1C]"
  by code_simp

lemma ascii_description: "list_all isASCII ''Auto-generated by consul-k8s''"
  by (simp add: isASCII_def)

lemma anypb_New_description:
  "anypb_New_impl wide \<lparr>Description = ''Auto-generated by consul-k8s''\<rparr>
     = (Some \<lparr>TypeUrl = ''type.googleapis.com/hashicorp.consul.tenancy.v2beta1.Namespace'',
              Value = CHR 0x0A # CHR 0x1C # ''Auto-generated by consul-k8s''\<rparr>, None)"
  unfolding anypb_New_impl_def newAny_def marshalNamespace_def
  using varint_description ascii_description by simp

text \<open>
  C1. For a name that is not reserved, when the read fails with NotFound,
  \<open>EnsureExists\<close>, with \<^verbatim>\<open>anypb.New\<close> as the library encodes the payload, issues after the
  read exactly one Write. The resource written has the identity (name, namespace type,
  partition), the metadata \<^verbatim>\<open>{"external-source": "kubernetes"}\<close> and, as its data, the
  encoding of the payload whose description is "Auto-generated by consul-k8s" (the
  bytes \<^verbatim>\<open>0x0A 0x1C\<close> and the description). When the Write succeeds the result is
  (true, success). The premise on \<open>Write\<close> only names what the client answers.
\<close>

theorem EnsureExists_absent_writes_once:
  assumes "ns \<noteq> WildcardNamespace" and "ns \<noteq> DefaultNamespaceName"
    and "Read client \<lparr>ReadRequest_Id = Some (namespaceID ap ns)\<rparr> s = ((rsp, err), s')"
    and "status_Code err = NotFound"
    and "Write client
           \<lparr>WriteRequest_Resource = Some
              \<lparr>Id = Some (namespaceID ap ns), Version = [],
               Metadata = Some [''external-source'' \<mapsto> ''kubernetes''],
               Data = Some
                 \<lparr>TypeUrl = ''type.googleapis.com/hashicorp.consul.tenancy.v2beta1.Namespace'',
                  Value = CHR 0x0A # CHR 0x1C # ''Auto-generated by consul-k8s''\<rparr>\<rparr>\<rparr> s'
         = (werr, s'')"
  shows "snd (EnsureExists client (anypb_New_impl wide) ap ns (s, log)) =
           (s'', log @ [ReadCall \<lparr>ReadRequest_Id = Some (namespaceID ap ns)\<rparr> (rsp, err),
                        WriteCall
                          \<lparr>WriteRequest_Resource = Some
                             \<lparr>Id = Some (namespaceID ap ns), Version = [],
                              Metadata = Some [''external-source'' \<mapsto> ''kubernetes''],
                              Data = Some
                                \<lparr>TypeUrl =
                                   ''type.googleapis.com/hashicorp.consul.tenancy.v2beta1.Namespace'',
                                 Value = CHR 0x0A # CHR 0x1C # ''Auto-generated by consul-k8s''\<rparr>\<rparr>\<rparr>
                          werr])
         \<and> fst (anypb_New_impl wide \<lparr>Description = ''Auto-generated by consul-k8s''\<rparr>)
             = Some \<lparr>TypeUrl = ''type.googleapis.com/hashicorp.consul.tenancy.v2beta1.Namespace'',
                     Value = CHR 0x0A # CHR 0x1C # ''Auto-generated by consul-k8s''\<rparr>
         \<and> (werr = None \<longrightarrow>
              fst (EnsureExists client (anypb_New_impl wide) ap ns (s, log)) = Returns (True, None))"
proof -
  have enc: "anypb_New_impl wide \<lparr>Description = ''Auto-generated by consul-k8s''\<rparr>
     = (Some \<lparr>TypeUrl = ''type.googleapis.com/hashicorp.consul.tenancy.v2beta1.Namespace'',
              Value = CHR 0x0A # CHR 0x1C # ''Auto-generated by consul-k8s''\<rparr>, None)"
    by (rule anypb_New_description)
  note run = EnsureExists_absent_encoded
    [where anypb_New = "anypb_New_impl wide" and log = log, OF assms(1-4) enc assms(5)]
  from run enc show ?thesis by simp
qed

theorem EnsureExists_absent_writes_once_witness:
  "snd (EnsureExists (stubClient (None, Some (Err NotFound ''resource not found'')) None None)
          (anypb_New_impl failAny) ''dc1'' ''team-a'' ((), []))
     = ((), [ReadCall \<lparr>ReadRequest_Id = Some (namespaceID ''dc1'' ''team-a'')\<rparr>
               (None, Some (Err NotFound ''resource not found'')),
             WriteCall
               \<lparr>WriteRequest_Resource = Some
                  \<lparr>Id = Some (namespaceID ''dc1'' ''team-a''), Version = [],
                   Metadata = Some [''external-source'' \<mapsto> ''kubernetes''],
                   Data = Some
                     \<lparr>TypeUrl = ''type.googleapis.com/hashicorp.consul.tenancy.v2beta1.Namespace'',
                      Value = CHR 0x0A # CHR 0x1C # ''Auto-generated by consul-k8s''\<rparr>\<rparr>\<rparr> None])
   \<and> fst (EnsureExists (stubClient (None, Some (Err NotFound ''resource not found'')) None None)
          (anypb_New_impl failAny) ''dc1'' ''team-a'' ((), []))
     = Returns (True, None)"
  using EnsureExists_absent_writes_once
    [where ns = "''team-a''" and ap = "''dc1''" and s = "()" and s' = "()" and s'' = "()"
       and log = "[]" and rsp = None and err = "Some (Err NotFound ''resource not found'')"
       and werr = None and wide = failAny
       and client = "stubClient (None, Some (Err NotFound ''resource not found'')) None None"]
  by (simp add: reserved stubClient_def status_Code_def)

text \<open>
  C9. For a name that is not reserved, when the read fails with NotFound and encoding
  the payload fails, \<open>EnsureExists\<close> returns (false, the encoder's error itself) and the
  read is the only call it issued: no Write, and the state of the service is the one
  the read left.
\<close>

theorem EnsureExists_encoding_failure_unwrapped:
  assumes "ns \<noteq> WildcardNamespace" and "ns \<noteq> DefaultNamespaceName"
    and "Read client \<lparr>ReadRequest_Id = Some (namespaceID ap ns)\<rparr> s = ((rsp, err), s')"
    and "status_Code err = NotFound"
    and "anypb_New \<lparr>Description = ''Auto-generated by consul-k8s''\<rparr> = (nsData, Some e)"
  shows "EnsureExists client anypb_New ap ns (s, log) =
           (Returns (False, Some e),
            (s', log @ [ReadCall \<lparr>ReadRequest_Id = Some (namespaceID ap ns)\<rparr> (rsp, err)]))"
  using assms by (cases err) (simp_all add: ops status_Code_def)

theorem EnsureExists_encoding_failure_unwrapped_witness:
  "EnsureExists memClient failAny ''dc1'' ''team-a'' (Map.empty, [])
     = (Returns (False, Some (Err Unknown ''proto: cannot marshal'')),
        (Map.empty, [ReadCall \<lparr>ReadRequest_Id = Some (namespaceID ''dc1'' ''team-a'')\<rparr>
                       (None, Some (Err NotFound ''resource not found''))]))"
  using EnsureExists_encoding_failure_unwrapped
    [where ns = "''team-a''" and ap = "''dc1''" and client = memClient and log = "[]"
       and s = Map.empty and s' = Map.empty and rsp = None
       and err = "Some (Err NotFound ''resource not found'')" and anypb_New = failAny
       and nsData = None and e = "Err Unknown ''proto: cannot marshal''"]
  by (simp add: reserved memClient_def failAny_def status_Code_def)

text \<open>
  C4, as stated, fails for a name that \<^verbatim>\<open>%q\<close> escapes. For the name \<^verbatim>\<open>a"b\<close> and a record
  marked for deletion, the error reads \<^verbatim>\<open>consul namespace "a\"b" deletion in progress\<close>:
  the name is not a part of it.
\<close>

theorem EnsureExists_marked_message_quotes_name:
  "fst (EnsureExists
          (stubClient (Some \<lparr>ReadResponse_Resource = Some (markedResource ''dc1'' quotedName)\<rparr>, None)
             None None)
          newAny ''dc1'' quotedName ((), []))
     = Returns (False, Some (Errorf_q ''consul namespace '' quotedName '' deletion in progress''))
   \<and> Error keepWide (Errorf_q ''consul namespace '' quotedName '' deletion in progress'')
     = ''consul namespace '' @ [CHR 0x22, CHR ''a'', CHR 0x5C, CHR 0x22, CHR ''b'', CHR 0x22]
         @ '' deletion in progress''
   \<and> \<not> sublist quotedName
          (Error keepWide (Errorf_q ''consul namespace '' quotedName '' deletion in progress''))"
proof (intro conjI)
  show "fst (EnsureExists
          (stubClient (Some \<lparr>ReadResponse_Resource = Some (markedResource ''dc1'' quotedName)\<rparr>, None)
             None None)
          newAny ''dc1'' quotedName ((), []))
     = Returns (False, Some (Errorf_q ''consul namespace '' quotedName '' deletion in progress''))"
    by (simp add: ops reserved stubClient_def markedResource_marked) (simp add: quotedName_def)
  show msg: "Error keepWide (Errorf_q ''consul namespace '' quotedName '' deletion in progress'')
     = ''consul namespace '' @ [CHR 0x22, CHR ''a'', CHR 0x5C, CHR 0x22, CHR ''b'', CHR 0x22]
         @ '' deletion in progress''"
    by (simp add: Quote_def quotedName_def isASCII_def escapeASCII_def)
  show "\<not> sublist quotedName
          (Error keepWide (Errorf_q ''consul namespace '' quotedName '' deletion in progress''))"
    unfolding msg by (simp add: quotedName_def sublist_code)
qed

text \<open>
  C4, amended. For a name that is not reserved, when the read succeeds with a record
  that carries the deletion marker, \<open>EnsureExists\<close> returns false and an error, and the
  read is the only call it issued: no Write. The text of the error is
  \<^verbatim>\<open>consul namespace \<close>, the name as \<^verbatim>\<open>%q\<close> prints it (between double quotes, escaped), and
  \<^verbatim>\<open> deletion in progress\<close>. It contains the name itself whenever the name is made of
  printable ASCII bytes other than the double quote and the backslash.
\<close>

theorem EnsureExists_marked_refuses:
  assumes "ns \<noteq> WildcardNamespace" and "ns \<noteq> DefaultNamespaceName"
    and "Read client \<lparr>ReadRequest_Id = Some (namespaceID ap ns)\<rparr> s = ((Some rsp, None), s')"
    and "ReadResponse_Resource rsp = Some res"
    and "isMarkedForDeletion (Some res) = Returns True"
  shows "EnsureExists client anypb_New ap ns (s, log) =
           (Returns (False, Some (Errorf_q ''consul namespace '' ns '' deletion in progress'')),
            (s', log @ [ReadCall \<lparr>ReadRequest_Id = Some (namespaceID ap ns)\<rparr> (Some rsp, None)]))
         \<and> Error quoteWide (Errorf_q ''consul namespace '' ns '' deletion in progress'')
             = ''consul namespace '' @ Quote quoteWide ns @ '' deletion in progress''
         \<and> ((\<forall>c\<in>set ns. plainByte c) \<longrightarrow>
              sublist ns (Error quoteWide (Errorf_q ''consul namespace '' ns '' deletion in progress'')))"
proof (intro conjI impI)
  show "EnsureExists client anypb_New ap ns (s, log) =
           (Returns (False, Some (Errorf_q ''consul namespace '' ns '' deletion in progress'')),
            (s', log @ [ReadCall \<lparr>ReadRequest_Id = Some (namespaceID ap ns)\<rparr> (Some rsp, None)]))"
    using assms by (simp add: ops)
  show "Error quoteWide (Errorf_q ''consul namespace '' ns '' deletion in progress'')
          = ''consul namespace '' @ Quote quoteWide ns @ '' deletion in progress''"
    by simp
next
  assume plain: "\<forall>c\<in>set ns. plainByte c"
  have "Error quoteWide (Errorf_q ''consul namespace '' ns '' deletion in progress'')
          = (''consul namespace '' @ [CHR 0x22]) @ ns @ ([CHR 0x22] @ '' deletion in progress'')"
    using Quote_plain [OF plain, of quoteWide] by simp
  then show "sublist ns
               (Error quoteWide (Errorf_q ''consul namespace '' ns '' deletion in progress''))"
    by (metis sublist_appendI)
qed

theorem EnsureExists_marked_refuses_witness:
  "EnsureExists
     (stubClient (Some \<lparr>ReadResponse_Resource = Some (markedResource ''dc1'' ''team-a'')\<rparr>, None)
        None None)
     newAny ''dc1'' ''team-a'' ((), [])
     = (Returns (False, Some (Errorf_q ''consul namespace '' ''team-a'' '' deletion in progress'')),
        ((), [ReadCall \<lparr>ReadRequest_Id = Some (namespaceID ''dc1'' ''team-a'')\<rparr>
                (Some \<lparr>ReadResponse_Resource = Some (markedResource ''dc1'' ''team-a'')\<rparr>, None)]))
   \<and> sublist ''team-a''
        (Error keepWide (Errorf_q ''consul namespace '' ''team-a'' '' deletion in progress''))"
  using EnsureExists_marked_refuses
    [where ns = "''team-a''" and ap = "''dc1''" and s = "()" and s' = "()" and log = "[]"
       and res = "markedResource ''dc1'' ''team-a''" and anypb_New = newAny
       and quoteWide = keepWide
       and rsp = "\<lparr>ReadResponse_Resource = Some (markedResource ''dc1'' ''team-a'')\<rparr>"
       and client = "stubClient
          (Some \<lparr>ReadResponse_Resource = Some (markedResource ''dc1'' ''team-a'')\<rparr>, None)
          None None"]
  by (simp add: reserved stubClient_def markedResource_marked plainByte_def)

subsection \<open>Errors of the remote client\<close>

text \<open>
  C8. For a name that is not reserved, every failure of a remote call other than
  NotFound on the read comes back wrapped: the error returned unwraps to the very error
  the client gave, and its text is a context naming the call that failed, followed by
  the text of the cause. A read failure gives "namespace read failed" in both operations
  (\<open>EnsureExists\<close> writes "consul " before it), a Delete failure "namespace delete
  failed", a Write failure "namespace creation failed".
\<close>

theorem remote_failures_wrapped:
  assumes "ns \<noteq> WildcardNamespace" and "ns \<noteq> DefaultNamespaceName"
    and "Read client \<lparr>ReadRequest_Id = Some (namespaceID ap ns)\<rparr> s = ((rsp, err), s')"
  shows "(\<forall>cause. err = Some cause \<and> status_Code err \<noteq> NotFound \<longrightarrow>
            (\<exists>e. fst (EnsureDeleted client ap ns (s, log)) = Returns (Some e)
                 \<and> Unwrap e = Some cause
                 \<and> (\<forall>quoteWide.
                        Error quoteWide e = ''namespace read failed: '' @ Error quoteWide cause
                        \<and> sublist ''namespace read failed'' (Error quoteWide e)))
          \<and> (\<exists>e. fst (EnsureExists client anypb_New ap ns (s, log)) = Returns (False, Some e)
                 \<and> Unwrap e = Some cause
                 \<and> (\<forall>quoteWide.
                        Error quoteWide e
                          = ''consul namespace read failed: '' @ Error quoteWide cause
                        \<and> sublist ''namespace read failed'' (Error quoteWide e))))
       \<and> (\<forall>r res cause s''.
            err = None \<and> rsp = Some r \<and> ReadResponse_Resource r = Some res
            \<and> isMarkedForDeletion (Some res) = Returns False
            \<and> Delete client \<lparr>DeleteRequest_Id = Id res, DeleteRequest_Version = []\<rparr> s'
                = (Some cause, s'') \<longrightarrow>
            (\<exists>e. fst (EnsureDeleted client ap ns (s, log)) = Returns (Some e)
                 \<and> Unwrap e = Some cause
                 \<and> (\<forall>quoteWide.
                        Error quoteWide e = ''namespace delete failed: '' @ Error quoteWide cause
                        \<and> sublist ''namespace delete failed'' (Error quoteWide e))))
       \<and> (\<forall>nsData cause s''.
            status_Code err = NotFound
            \<and> anypb_New \<lparr>Description = ''Auto-generated by consul-k8s''\<rparr> = (nsData, None)
            \<and> Write client
                 \<lparr>WriteRequest_Resource = Some
                    \<lparr>Id = Some (namespaceID ap ns), Version = [],
                     Metadata = Some [''external-source'' \<mapsto> ''kubernetes''],
                     Data = nsData\<rparr>\<rparr> s'
                = (Some cause, s'') \<longrightarrow>
            (\<exists>e. fst (EnsureExists client anypb_New ap ns (s, log)) = Returns (False, Some e)
                 \<and> Unwrap e = Some cause
                 \<and> (\<forall>quoteWide.
                        Error quoteWide e
                          = ''consul namespace creation failed: '' @ Error quoteWide cause
                        \<and> sublist ''namespace creation failed'' (Error quoteWide e))))"
proof (intro conjI allI impI)
  fix cause
  assume "err = Some cause \<and> status_Code err \<noteq> NotFound"
  then have h: "err = Some cause" "status_Code (Some cause) \<noteq> NotFound" by auto
  have "fst (EnsureDeleted client ap ns (s, log))
          = Returns (Some (Errorf_w ''namespace read failed: '' cause))"
    using assms h by (simp add: ops)
  then show "\<exists>e. fst (EnsureDeleted client ap ns (s, log)) = Returns (Some e)
                 \<and> Unwrap e = Some cause
                 \<and> (\<forall>quoteWide.
                        Error quoteWide e = ''namespace read failed: '' @ Error quoteWide cause
                        \<and> sublist ''namespace read failed'' (Error quoteWide e))"
    by (simp add: sublist_Cons_right)
  have "fst (EnsureExists client anypb_New ap ns (s, log))
          = Returns (False, Some (Errorf_w ''consul namespace read failed: '' cause))"
    using assms h by (simp add: ops)
  then show "\<exists>e. fst (EnsureExists client anypb_New ap ns (s, log)) = Returns (False, Some e)
                 \<and> Unwrap e = Some cause
                 \<and> (\<forall>quoteWide.
                        Error quoteWide e
                          = ''consul namespace read failed: '' @ Error quoteWide cause
                        \<and> sublist ''namespace read failed'' (Error quoteWide e))"
    by (simp add: sublist_Cons_right)
next
  fix r res cause s''
  assume h: "err = None \<and> rsp = Some r \<and> ReadResponse_Resource r = Some res
            \<and> isMarkedForDeletion (Some res) = Returns False
            \<and> Delete client \<lparr>DeleteRequest_Id = Id res, DeleteRequest_Version = []\<rparr> s'
                = (Some cause, s'')"
  have "fst (EnsureDeleted client ap ns (s, log))
          = Returns (Some (Errorf_w ''namespace delete failed: '' cause))"
    using assms h by (simp add: ops status_Code_def)
  then show "\<exists>e. fst (EnsureDeleted client ap ns (s, log)) = Returns (Some e)
                 \<and> Unwrap e = Some cause
                 \<and> (\<forall>quoteWide.
                        Error quoteWide e = ''namespace delete failed: '' @ Error quoteWide cause
                        \<and> sublist ''namespace delete failed'' (Error quoteWide e))"
    by (simp add: sublist_Cons_right)
next
  fix nsData cause s''
  assume h: "status_Code err = NotFound
            \<and> anypb_New \<lparr>Description = ''Auto-generated by consul-k8s''\<rparr> = (nsData, None)
            \<and> Write client
                 \<lparr>WriteRequest_Resource = Some
                    \<lparr>Id = Some (namespaceID ap ns), Version = [],
                     Metadata = Some [''external-source'' \<mapsto> ''kubernetes''],
                     Data = nsData\<rparr>\<rparr> s'
                = (Some cause, s'')"
  have "fst (EnsureExists client anypb_New ap ns (s, log))
          = Returns (False, Some (Errorf_w ''consul namespace creation failed: '' cause))"
    using assms h by (cases err) (simp_all add: ops status_Code_def)
  then show "\<exists>e. fst (EnsureExists client anypb_New ap ns (s, log)) = Returns (False, Some e)
                 \<and> Unwrap e = Some cause
                 \<and> (\<forall>quoteWide.
                        Error quoteWide e
                          = ''consul namespace creation failed: '' @ Error quoteWide cause
                        \<and> sublist ''namespace creation failed'' (Error quoteWide e))"
    by (simp add: sublist_Cons_right)
qed

theorem remote_failures_wrapped_witness:
  "(\<exists>e. fst (EnsureDeleted
              (stubClient (None, Some (Err Unavailable ''connection refused'')) None None)
              ''dc1'' ''team-a'' ((), [])) = Returns (Some e)
        \<and> Unwrap e = Some (Err Unavailable ''connection refused'')
        \<and> Error keepWide e = ''namespace read failed: connection refused'')
   \<and> (\<exists>e. fst (EnsureExists
              (stubClient (None, Some (Err Unavailable ''connection refused'')) None None)
              newAny ''dc1'' ''team-a'' ((), [])) = Returns (False, Some e)
        \<and> Unwrap e = Some (Err Unavailable ''connection refused'')
        \<and> Error keepWide e = ''consul namespace read failed: connection refused'')
   \<and> (\<exists>e. fst (EnsureDeleted
              (stubClient
                 (Some \<lparr>ReadResponse_Resource = Some (liveResource ''dc1'' ''team-a'')\<rparr>, None)
                 None (Some (Err Unavailable ''connection refused'')))
              ''dc1'' ''team-a'' ((), [])) = Returns (Some e)
        \<and> Unwrap e = Some (Err Unavailable ''connection refused'')
        \<and> Error keepWide e = ''namespace delete failed: connection refused'')
   \<and> (\<exists>e. fst (EnsureExists
              (stubClient (None, Some (Err NotFound ''resource not found''))
                 (Some (Err Unavailable ''connection refused'')) None)
              newAny ''dc1'' ''team-a'' ((), [])) = Returns (False, Some e)
        \<and> Unwrap e = Some (Err Unavailable ''connection refused'')
        \<and> Error keepWide e = ''consul namespace creation failed: connection refused'')"
proof -
  let ?down = "Err Unavailable ''connection refused''"
  let ?rid = "\<lparr>ReadRequest_Id = Some (namespaceID ''dc1'' ''team-a'')\<rparr>"
  let ?found = "(Some \<lparr>ReadResponse_Resource = Some (liveResource ''dc1'' ''team-a'')\<rparr>, None)"
  let ?absent = "(None, Some (Err NotFound ''resource not found''))"
  have n: "''team-a'' \<noteq> WildcardNamespace" "''team-a'' \<noteq> DefaultNamespaceName"
    by (simp_all add: reserved)
  have r1: "Read (stubClient (None, Some ?down) None None) ?rid () = ((None, Some ?down), ())"
    by (simp add: stubClient_def)
  have r2: "Read (stubClient ?found None (Some ?down)) ?rid () = (?found, ())"
    by (simp add: stubClient_def)
  have r3: "Read (stubClient ?absent (Some ?down) None) ?rid () = (?absent, ())"
    by (simp add: stubClient_def)
  note w1 = remote_failures_wrapped [OF n r1, where log = "[]" and anypb_New = newAny]
  note w2 = remote_failures_wrapped [OF n r2, where log = "[]" and anypb_New = newAny]
  note w3 = remote_failures_wrapped [OF n r3, where log = "[]" and anypb_New = newAny]
  have a: "(\<exists>e. fst (EnsureDeleted (stubClient (None, Some ?down) None None)
                     ''dc1'' ''team-a'' ((), [])) = Returns (Some e)
              \<and> Unwrap e = Some ?down
              \<and> Error keepWide e = ''namespace read failed: connection refused'')
         \<and> (\<exists>e. fst (EnsureExists (stubClient (None, Some ?down) None None)
                     newAny ''dc1'' ''team-a'' ((), [])) = Returns (False, Some e)
              \<and> Unwrap e = Some ?down
              \<and> Error keepWide e = ''consul namespace read failed: connection refused'')"
    using w1 by (fastforce simp: status_Code_def)
  have b: "\<exists>e. fst (EnsureDeleted (stubClient ?found None (Some ?down))
                     ''dc1'' ''team-a'' ((), [])) = Returns (Some e)
              \<and> Unwrap e = Some ?down
              \<and> Error keepWide e = ''namespace delete failed: connection refused''"
    using w2 by (fastforce simp: stubClient_def liveResource_not_marked)
  have c: "\<exists>e. fst (EnsureExists (stubClient ?absent (Some ?down) None)
                     newAny ''dc1'' ''team-a'' ((), [])) = Returns (False, Some e)
              \<and> Unwrap e = Some ?down
              \<and> Error keepWide e = ''consul namespace creation failed: connection refused''"
    using w3 by (fastforce simp: stubClient_def newAny_def status_Code_def)
  from a b c show ?thesis by blast
qed

subsection \<open>What each operation may do\<close>

lemma EnsureExists_created:
  "fst (EnsureExists client anypb_New ap ns (s, [])) = Returns (True, err) \<Longrightarrow>
     err = None
     \<and> (\<exists>rreq r wreq. snd (snd (EnsureExists client anypb_New ap ns (s, [])))
            = [ReadCall rreq r, WriteCall wreq None])"
  by (auto simp add: ops split: prod.splits option.splits outcome.splits bool.splits if_splits)

lemma EnsureExists_error_false:
  "fst (EnsureExists client anypb_New ap ns (s, [])) = Returns (b, Some e) \<Longrightarrow> b = False"
  by (simp add: ops split: prod.splits option.splits outcome.splits bool.splits if_splits)

lemma EnsureExists_no_Delete:
  "c \<in> set (snd (snd (EnsureExists client anypb_New ap ns (s, [])))) \<Longrightarrow> \<not> isDelete c"
  by (auto simp add: ops split: prod.splits option.splits outcome.splits bool.splits if_splits)

lemma EnsureDeleted_no_Write:
  "c \<in> set (snd (snd (EnsureDeleted client ap ns (s, [])))) \<Longrightarrow> \<not> isWrite c"
  by (auto simp add: ops split: prod.splits option.splits outcome.splits bool.splits if_splits)

text \<open>
  C10. For every partition, name, client and encoder, of the calls one run issues (the
  log starts empty): when \<open>EnsureExists\<close> returns true, it returns no error and its calls
  are a read and then one Write that succeeded; when it returns an error, the boolean is
  false; \<open>EnsureExists\<close> issues no Delete; and \<open>EnsureDeleted\<close> issues no Write.
\<close>

theorem EnsureExists_created_only_after_write:
  "(\<forall>err. fst (EnsureExists client anypb_New ap ns (s, [])) = Returns (True, err) \<longrightarrow>
        err = None
        \<and> (\<exists>rreq r wreq. snd (snd (EnsureExists client anypb_New ap ns (s, [])))
               = [ReadCall rreq r, WriteCall wreq None]))
   \<and> (\<forall>b e. fst (EnsureExists client anypb_New ap ns (s, [])) = Returns (b, Some e)
          \<longrightarrow> b = False)
   \<and> (\<forall>c\<in>set (snd (snd (EnsureExists client anypb_New ap ns (s, [])))). \<not> isDelete c)
   \<and> (\<forall>c\<in>set (snd (snd (EnsureDeleted client ap ns (s, [])))). \<not> isWrite c)"
  using EnsureExists_created [of client anypb_New ap ns s]
    EnsureExists_error_false [of client anypb_New ap ns s]
    EnsureExists_no_Delete [of _ client anypb_New ap ns s]
    EnsureDeleted_no_Write [of _ client ap ns s]
  by blast

theorem EnsureExists_created_only_after_write_witness:
  "fst (EnsureExists memClient newAny ''dc1'' ''team-a'' (Map.empty, [])) = Returns (True, None)
   \<and> (\<exists>rreq r wreq. snd (snd (EnsureExists memClient newAny ''dc1'' ''team-a'' (Map.empty, [])))
          = [ReadCall rreq r, WriteCall wreq None])
   \<and> fst (EnsureExists (stubClient (None, Some (Err Unavailable ''connection refused'')) None None)
            newAny ''dc1'' ''team-a'' ((), []))
       = Returns (False, Some (Errorf_w ''consul namespace read failed: ''
                                 (Err Unavailable ''connection refused'')))
   \<and> filter isDelete (snd (snd (EnsureExists memClient newAny ''dc1'' ''team-a'' (Map.empty, []))))
       = []
   \<and> filter isWrite
        (snd (snd (EnsureDeleted memClient ''dc1'' ''team-a''
                     ([namespaceID ''dc1'' ''team-a'' \<mapsto> liveResource ''dc1'' ''team-a''], []))))
       = []"
proof -
  have created: "fst (EnsureExists memClient newAny ''dc1'' ''team-a'' (Map.empty, []))
                   = Returns (True, None)"
    by (simp add: ops reserved memClient_def newAny_def status_Code_def)
  have failed: "fst (EnsureExists
                       (stubClient (None, Some (Err Unavailable ''connection refused'')) None None)
                       newAny ''dc1'' ''team-a'' ((), []))
                  = Returns (False, Some (Errorf_w ''consul namespace read failed: ''
                                            (Err Unavailable ''connection refused'')))"
    by (simp add: ops reserved stubClient_def status_Code_def)
  note t1 = EnsureExists_created_only_after_write
    [where client = memClient and anypb_New = newAny and ap = "''dc1''" and ns = "''team-a''"
       and s = Map.empty]
  note t2 = EnsureExists_created_only_after_write
    [where client = memClient and anypb_New = newAny and ap = "''dc1''" and ns = "''team-a''"
       and s = "[namespaceID ''dc1'' ''team-a'' \<mapsto> liveResource ''dc1'' ''team-a'']"]
  from t1 created
  have calls: "\<exists>rreq r wreq.
      snd (snd (EnsureExists memClient newAny ''dc1'' ''team-a'' (Map.empty, [])))
        = [ReadCall rreq r, WriteCall wreq None]"
    by blast
  from t1 have noDelete:
    "filter isDelete (snd (snd (EnsureExists memClient newAny ''dc1'' ''team-a'' (Map.empty, []))))
       = []"
    by (simp add: filter_empty_conv)
  from t2 have noWrite:
    "filter isWrite
       (snd (snd (EnsureDeleted memClient ''dc1'' ''team-a''
                    ([namespaceID ''dc1'' ''team-a'' \<mapsto> liveResource ''dc1'' ''team-a''], []))))
       = []"
    by (simp add: filter_empty_conv)
  from created calls failed noDelete noWrite show ?thesis by blast
qed

end
